theory Spec2Isabelle
  imports Main "HOL-Library.Word"
begin

section \<open>Joystick controller (esp32/Joystick.h, esp32/Joystick.cpp)\<close>

text \<open>
  The firmware targets the ESP32, where \<open>int\<close> is a 32-bit signed integer and
  \<open>unsigned long\<close> a 32-bit unsigned one.

  \<^item> Timestamps (\<open>millis()\<close>, \<open>_lastSwitchTime\<close>, \<open>_lastPositionTime\<close>,
    \<open>_debounceDelay\<close>) are \<open>unsigned long\<close>: they are modelled as \<open>32 word\<close>, so the
    subtraction \<open>currentTime - _lastSwitchTime\<close> wraps around and \<open><\<close> compares
    unsigned, as in the source.
  \<^item> ADC readings and calibration values are \<open>int\<close>. Signed overflow is undefined
    behaviour in C++, so the source has a meaning only on inputs where no intermediate
    result leaves the 32-bit range; there the machine result is the mathematical one.
    These values are modelled as unbounded integers.
  \<^item> The diagnostic output to \<open>Serial\<close> that \<open>_debugMode\<close> enables (and the
    function-local rate-limit timestamps it uses) writes to the serial port only and
    is left out; the flag itself is kept. \<open>begin()\<close> only configures the pins.
\<close>

datatype JoystickPosition = JOY_CENTER | JOY_UP | JOY_DOWN | JOY_LEFT | JOY_RIGHT

type_synonym time = "32 word"

record joystick =
  pinX :: int
  pinY :: int
  pinSwitch :: int
  minVal :: int
  maxVal :: int
  centerVal :: int
  deadzone :: int
  invertX :: bool
  invertY :: bool
  debugMode :: bool
  currentX :: int
  currentY :: int
  currentSwitch :: bool
  currentPosition :: JoystickPosition
  previousPosition :: JoystickPosition
  previousSwitch :: bool
  lastSwitchTime :: time
  lastPositionTime :: time

definition debounceDelay :: time where
  "debounceDelay = 50"

text \<open>
  The constructor. \<open>_currentX\<close> and \<open>_currentY\<close> are not assigned by it; the only
  instance is a global object, whose storage is zero-initialised before the constructor
  runs.
\<close>

definition Joystick :: "int \<Rightarrow> int \<Rightarrow> int \<Rightarrow> joystick" where
  "Joystick px py psw =
     \<lparr> pinX = px, pinY = py, pinSwitch = psw,
       minVal = 1200, maxVal = 4095, centerVal = 2559, deadzone = 300,
       invertX = False, invertY = False,
       debugMode = False,
       currentX = 0, currentY = 0, currentSwitch = False,
       currentPosition = JOY_CENTER, previousPosition = JOY_CENTER,
       previousSwitch = False,
       lastSwitchTime = 0, lastPositionTime = 0 \<rparr>"

definition setThresholds :: "int \<Rightarrow> int \<Rightarrow> int \<Rightarrow> int \<Rightarrow> joystick \<Rightarrow> joystick" where
  "setThresholds mn mx c dz j = j\<lparr>minVal := mn, maxVal := mx, centerVal := c, deadzone := dz\<rparr>"

definition setInvertX :: "bool \<Rightarrow> joystick \<Rightarrow> joystick" where
  "setInvertX invert j = j\<lparr>invertX := invert\<rparr>"

definition setInvertY :: "bool \<Rightarrow> joystick \<Rightarrow> joystick" where
  "setInvertY invert j = j\<lparr>invertY := invert\<rparr>"

definition setDebugMode :: "bool \<Rightarrow> joystick \<Rightarrow> joystick" where
  "setDebugMode enabled j = j\<lparr>debugMode := enabled\<rparr>"

subsection \<open>Position calculation\<close>

text \<open>\<open>Joystick::calculatePosition\<close>, on the readings stored in the object.\<close>

definition calculatePosition :: "joystick \<Rightarrow> JoystickPosition" where
  "calculatePosition j =
     (let x = currentX j;
          y = currentY j;
          x = (if invertX j then maxVal j - (x - minVal j) + minVal j else x);
          y = (if invertY j then maxVal j - (y - minVal j) + minVal j else y);
          deltaX = x - centerVal j;
          deltaY = y - centerVal j
      in if \<bar>deltaX\<bar> < deadzone j \<and> \<bar>deltaY\<bar> < deadzone j then JOY_CENTER
         else if \<bar>deltaX\<bar> > \<bar>deltaY\<bar> then
           (if deltaX > 0 then JOY_RIGHT else JOY_LEFT)
         else
           (if deltaY > 0 then JOY_UP else JOY_DOWN))"

definition getPosition :: "joystick \<Rightarrow> JoystickPosition" where
  "getPosition j = currentPosition j"

definition getRawX :: "joystick \<Rightarrow> int" where
  "getRawX j = currentX j"

definition getRawY :: "joystick \<Rightarrow> int" where
  "getRawY j = currentY j"

definition isSwitchPressed :: "joystick \<Rightarrow> bool" where
  "isSwitchPressed j = currentSwitch j"

subsection \<open>Callbacks\<close>

text \<open>
  A callback is a \<open>void (*)()\<close>: it takes no argument and acts on the rest of the
  program, here a state of type \<open>'w\<close>. While it runs it can also observe the joystick
  object, so the model passes it the joystick as it is at the moment of the call; the
  callbacks of this repository do not modify the joystick. A slot holding \<open>nullptr\<close>
  is \<open>None\<close>. The six slots are members of the C++ class; they are kept in a record
  of their own because their type mentions the joystick record.
\<close>

type_synonym 'w callback = "joystick \<Rightarrow> 'w \<Rightarrow> 'w"

record 'w callbacks =
  callbackLeft :: "'w callback option"
  callbackRight :: "'w callback option"
  callbackUp :: "'w callback option"
  callbackDown :: "'w callback option"
  callbackCenter :: "'w callback option"
  callbackSwitch :: "'w callback option"

text \<open>The constructor sets every slot to \<open>nullptr\<close>.\<close>

definition noCallbacks :: "'w callbacks" where
  "noCallbacks =
     \<lparr> callbackLeft = None, callbackRight = None, callbackUp = None,
       callbackDown = None, callbackCenter = None, callbackSwitch = None \<rparr>"

definition onLeft :: "'w callback option \<Rightarrow> 'w callbacks \<Rightarrow> 'w callbacks" where
  "onLeft callback cb = cb\<lparr>callbackLeft := callback\<rparr>"

definition onRight :: "'w callback option \<Rightarrow> 'w callbacks \<Rightarrow> 'w callbacks" where
  "onRight callback cb = cb\<lparr>callbackRight := callback\<rparr>"

definition onUp :: "'w callback option \<Rightarrow> 'w callbacks \<Rightarrow> 'w callbacks" where
  "onUp callback cb = cb\<lparr>callbackUp := callback\<rparr>"

definition onDown :: "'w callback option \<Rightarrow> 'w callbacks \<Rightarrow> 'w callbacks" where
  "onDown callback cb = cb\<lparr>callbackDown := callback\<rparr>"

definition onCenter :: "'w callback option \<Rightarrow> 'w callbacks \<Rightarrow> 'w callbacks" where
  "onCenter callback cb = cb\<lparr>callbackCenter := callback\<rparr>"

definition onSwitch :: "'w callback option \<Rightarrow> 'w callbacks \<Rightarrow> 'w callbacks" where
  "onSwitch callback cb = cb\<lparr>callbackSwitch := callback\<rparr>"

text \<open>\<open>if (cb != nullptr) cb();\<close>\<close>

fun invoke :: "'w callback option \<Rightarrow> joystick \<Rightarrow> 'w \<Rightarrow> 'w" where
  "invoke None j w = w"
| "invoke (Some f) j w = f j w"

subsection \<open>Polling\<close>

text \<open>
  What one call of \<open>update()\<close> reads from the hardware: \<open>millis()\<close>,
  \<open>analogRead(_pinX)\<close>, \<open>analogRead(_pinY)\<close> and \<open>digitalRead(_pinSwitch)\<close>.
\<close>

datatype pin_level = LOW | HIGH

record inputs =
  millis :: time
  analogReadX :: int
  analogReadY :: int
  digitalReadSwitch :: pin_level

text \<open>
  \<open>Joystick::update\<close> in the order of its statements, in three parts: storing the
  analog readings (source lines 140-141), the switch with its debouncing (157-175), and
  the position with its debouncing (178-215). In both debounced parts the callback is
  called first and the members are assigned after it has returned.
\<close>

definition update_read :: "inputs \<Rightarrow> joystick \<Rightarrow> joystick" where
  "update_read inp j = j\<lparr>currentX := analogReadX inp, currentY := analogReadY inp\<rparr>"

definition update_switch :: "'w callbacks \<Rightarrow> inputs \<Rightarrow> joystick \<Rightarrow> 'w \<Rightarrow> joystick \<times> 'w" where
  "update_switch cb inp j w =
     (let currentTime = millis inp;
          switchPressed = (digitalReadSwitch inp = LOW);
          (j, w) =
            (if switchPressed \<noteq> previousSwitch j then
               (if currentTime - lastSwitchTime j > debounceDelay then
                  (let w = (if switchPressed \<and> \<not> previousSwitch j
                            then invoke (callbackSwitch cb) j w else w)
                   in (j\<lparr>previousSwitch := switchPressed, lastSwitchTime := currentTime\<rparr>, w))
                else (j, w))
             else (j, w))
      in (j\<lparr>currentSwitch := switchPressed\<rparr>, w))"

definition update_position :: "'w callbacks \<Rightarrow> inputs \<Rightarrow> joystick \<Rightarrow> 'w \<Rightarrow> joystick \<times> 'w" where
  "update_position cb inp j w =
     (let currentTime = millis inp;
          newPosition = calculatePosition j
      in if newPosition \<noteq> previousPosition j then
           (if currentTime - lastPositionTime j > debounceDelay then
              (let w = (case newPosition of
                          JOY_LEFT \<Rightarrow> invoke (callbackLeft cb) j w
                        | JOY_RIGHT \<Rightarrow> invoke (callbackRight cb) j w
                        | JOY_UP \<Rightarrow> invoke (callbackUp cb) j w
                        | JOY_DOWN \<Rightarrow> invoke (callbackDown cb) j w
                        | JOY_CENTER \<Rightarrow> invoke (callbackCenter cb) j w)
               in (j\<lparr>previousPosition := newPosition, currentPosition := newPosition,
                     lastPositionTime := currentTime\<rparr>, w))
            else (j, w))
         else (j, w))"

definition update :: "'w callbacks \<Rightarrow> inputs \<Rightarrow> joystick \<times> 'w \<Rightarrow> joystick \<times> 'w" where
  "update cb inp jw =
     (let (j, w) = jw;
          j = update_read inp j;
          (j, w) = update_switch cb inp j w
      in update_position cb inp j w)"

subsection \<open>Vocabulary of the specification\<close>

text \<open>
  The deltas: the stored reading, reflected when the axis is inverted, minus the
  calibrated centre.
\<close>

definition reflect :: "joystick \<Rightarrow> int \<Rightarrow> int" where
  "reflect j v = maxVal j - (v - minVal j) + minVal j"

definition deltaX :: "joystick \<Rightarrow> int" where
  "deltaX j = (if invertX j then reflect j (currentX j) else currentX j) - centerVal j"

definition deltaY :: "joystick \<Rightarrow> int" where
  "deltaY j = (if invertY j then reflect j (currentY j) else currentY j) - centerVal j"

text \<open>\<open>classify\<close>: the position computed for a sample under the calibration of \<open>j\<close>.\<close>

definition classify :: "int \<Rightarrow> int \<Rightarrow> joystick \<Rightarrow> JoystickPosition" where
  "classify x y j = calculatePosition (j\<lparr>currentX := x, currentY := y\<rparr>)"

text \<open>The instantaneous readings of a poll, and when a channel confirms or drops one.\<close>

definition switchReading :: "inputs \<Rightarrow> bool" where
  "switchReading inp = (digitalReadSwitch inp = LOW)"

definition newPosition :: "joystick \<Rightarrow> inputs \<Rightarrow> JoystickPosition" where
  "newPosition j inp = classify (analogReadX inp) (analogReadY inp) j"

definition switch_confirmed :: "joystick \<Rightarrow> inputs \<Rightarrow> bool" where
  "switch_confirmed j inp \<longleftrightarrow>
     switchReading inp \<noteq> previousSwitch j \<and> millis inp - lastSwitchTime j > debounceDelay"

definition switch_dropped :: "joystick \<Rightarrow> inputs \<Rightarrow> bool" where
  "switch_dropped j inp \<longleftrightarrow>
     switchReading inp \<noteq> previousSwitch j \<and> \<not> millis inp - lastSwitchTime j > debounceDelay"

definition position_confirmed :: "joystick \<Rightarrow> inputs \<Rightarrow> bool" where
  "position_confirmed j inp \<longleftrightarrow>
     newPosition j inp \<noteq> previousPosition j \<and> millis inp - lastPositionTime j > debounceDelay"

definition position_dropped :: "joystick \<Rightarrow> inputs \<Rightarrow> bool" where
  "position_dropped j inp \<longleftrightarrow>
     newPosition j inp \<noteq> previousPosition j \<and> \<not> millis inp - lastPositionTime j > debounceDelay"

text \<open>The slot that the \<open>switch\<close> statement of \<open>update()\<close> selects for a position.\<close>

fun positionCallback :: "'w callbacks \<Rightarrow> JoystickPosition \<Rightarrow> 'w callback option" where
  "positionCallback cb JOY_LEFT = callbackLeft cb"
| "positionCallback cb JOY_RIGHT = callbackRight cb"
| "positionCallback cb JOY_UP = callbackUp cb"
| "positionCallback cb JOY_DOWN = callbackDown cb"
| "positionCallback cb JOY_CENTER = callbackCenter cb"

text \<open>
  Callbacks that only log: each appends the event it stands for, together with the
  joystick object as it is when the callback runs.
\<close>

datatype event = EvLeft | EvRight | EvUp | EvDown | EvCenter | EvSwitch

type_synonym trace = "(event \<times> joystick) list"

definition logEvent :: "event \<Rightarrow> trace callback" where
  "logEvent e j tr = tr @ [(e, j)]"

definition loggers :: "trace callbacks" where
  "loggers =
     \<lparr> callbackLeft = Some (logEvent EvLeft), callbackRight = Some (logEvent EvRight),
       callbackUp = Some (logEvent EvUp), callbackDown = Some (logEvent EvDown),
       callbackCenter = Some (logEvent EvCenter), callbackSwitch = Some (logEvent EvSwitch) \<rparr>"

fun positionEvent :: "JoystickPosition \<Rightarrow> event" where
  "positionEvent JOY_LEFT = EvLeft"
| "positionEvent JOY_RIGHT = EvRight"
| "positionEvent JOY_UP = EvUp"
| "positionEvent JOY_DOWN = EvDown"
| "positionEvent JOY_CENTER = EvCenter"

text \<open>What a logged call saw of the debounced state: the event, then
  \<open>_previousPosition\<close>, \<open>_lastPositionTime\<close>, \<open>_previousSwitch\<close>, \<open>_lastSwitchTime\<close>.\<close>

fun seenAtCall :: "event \<times> joystick \<Rightarrow> event \<times> JoystickPosition \<times> time \<times> bool \<times> time" where
  "seenAtCall (e, j) = (e, previousPosition j, lastPositionTime j, previousSwitch j, lastSwitchTime j)"

text \<open>The joystick as \<open>initJoystick()\<close> of \<open>thermohub8.cpp\<close> calibrates it.\<close>

definition JOY_X_PIN :: int where "JOY_X_PIN = 34"
definition JOY_Y_PIN :: int where "JOY_Y_PIN = 35"
definition JOY_SW_PIN :: int where "JOY_SW_PIN = 32"
definition JOY_MIN_VAL :: int where "JOY_MIN_VAL = 0"
definition JOY_MAX_VAL :: int where "JOY_MAX_VAL = 4095"
definition JOY_CENTER_VAL :: int where "JOY_CENTER_VAL = 2000"
definition JOY_DEADZONE :: int where "JOY_DEADZONE = 500"

definition initJoystick_state :: joystick where
  "initJoystick_state =
     setInvertY True
       (setThresholds JOY_MIN_VAL JOY_MAX_VAL JOY_CENTER_VAL JOY_DEADZONE
          (Joystick JOY_X_PIN JOY_Y_PIN JOY_SW_PIN))"

section \<open>Display navigation (src/thermohub8.cpp)\<close>

text \<open>
  The display is driven through \<open>lcd\<close>; the model keeps the commands sent to it, in
  order. \<open>print_sensordata\<close> formats a name and a floating-point temperature from
  the sensor arrays: it is one command here, carrying the sensor index. Output to
  \<open>Serial\<close>, the set-up of the I2C bus and the two-second \<open>delay\<close> of
  \<open>initDisplay\<close> are left out. Offsets are \<open>int\<close> in the source and unbounded
  integers here; they stay far from the 32-bit limits.
\<close>

definition NUM_SENSORS :: int where "NUM_SENSORS = 8"
definition LCD_ROWS :: int where "LCD_ROWS = 4"

datatype lcd_cmd =
    LcdInit
  | LcdBacklight
  | LcdClear
  | LcdSetCursor int int
  | LcdPrint string
  | LcdPrintSensorData int
  | LcdPrintLocalIP

record display =
  displayOffset :: int
  maxDisplayOffset :: int
  lcd :: "lcd_cmd list"

definition send :: "lcd_cmd list \<Rightarrow> display \<Rightarrow> display" where
  "send cmds d = d\<lparr>lcd := lcd d @ cmds\<rparr>"

text \<open>The globals before \<open>setup()\<close>.\<close>

definition display0 :: display where
  "display0 = \<lparr> displayOffset = 0, maxDisplayOffset = 0, lcd = [] \<rparr>"

definition initDisplay :: "display \<Rightarrow> display" where
  "initDisplay d =
     (let d = send [LcdInit, LcdBacklight, LcdClear] d;
          d = send [LcdSetCursor 1 0, LcdPrint ''Thermohub8''] d;
          d = send [LcdSetCursor (-4) 2, LcdPrint ''Developed by''] d;
          d = send [LcdSetCursor (-4) 3, LcdPrint ''Johannes    v1.0''] d;
          d = send [LcdClear] d
      in d\<lparr>maxDisplayOffset := max 0 (NUM_SENSORS - LCD_ROWS)\<rparr>)"

definition print_menu :: "int \<Rightarrow> int \<Rightarrow> int \<Rightarrow> display \<Rightarrow> display" where
  "print_menu sensorIndex correctXOffset row d =
     (let d = (if sensorIndex = NUM_SENSORS
               then send [LcdSetCursor correctXOffset row, LcdPrint ''================''] d
               else d);
          d = (if sensorIndex = NUM_SENSORS + 1
               then send [LcdSetCursor correctXOffset row, LcdPrint ''IP-Address:''] d
               else d);
          d = (if sensorIndex = NUM_SENSORS + 2
               then send [LcdSetCursor correctXOffset row, LcdPrintLocalIP] d
               else d);
          d = (if sensorIndex = NUM_SENSORS + 3
               then send [LcdSetCursor correctXOffset row, LcdPrint ''Version:     1.0''] d
               else d)
      in d)"

text \<open>The body of the \<open>for\<close> loop of \<open>updateDisplay\<close>, and the loop from \<open>row\<close> on.\<close>

definition updateDisplay_row :: "int \<Rightarrow> display \<Rightarrow> display" where
  "updateDisplay_row row d =
     (let sensorIndex = displayOffset d + row;
          correctXOffset = (if row > 1 then - 4 else 0);
          d = (if sensorIndex < NUM_SENSORS
               then send [LcdSetCursor correctXOffset row, LcdPrintSensorData sensorIndex] d
               else d)
      in print_menu sensorIndex correctXOffset row d)"

function updateDisplay_from :: "int \<Rightarrow> display \<Rightarrow> display" where
  "updateDisplay_from row d =
     (if row < LCD_ROWS then updateDisplay_from (row + 1) (updateDisplay_row row d) else d)"
  by pat_completeness auto
termination
  by (relation "measure (\<lambda>(row, d). nat (LCD_ROWS - row))") auto

definition updateDisplay :: "display \<Rightarrow> display" where
  "updateDisplay d = updateDisplay_from 0 d"

definition scrollUp :: "display \<Rightarrow> display" where
  "scrollUp d =
     (let d = send [LcdClear] d
      in if displayOffset d > 0
         then updateDisplay (d\<lparr>displayOffset := displayOffset d - 1\<rparr>)
         else d)"

definition scrollDown :: "display \<Rightarrow> display" where
  "scrollDown d =
     (let d = send [LcdClear] d
      in if displayOffset d < maxDisplayOffset d + 4
         then updateDisplay (d\<lparr>displayOffset := displayOffset d + 1\<rparr>)
         else d)"

text \<open>
  The joystick callbacks of \<open>thermohub8.cpp\<close>, acting on the display. Each also
  prints a line to \<open>Serial\<close>, which is not modelled; four of them do nothing else.
\<close>

definition onJoystickUp :: "display callback" where
  "onJoystickUp j d = scrollUp d"

definition onJoystickDown :: "display callback" where
  "onJoystickDown j d = scrollDown d"

definition onJoystickLeft :: "display callback" where
  "onJoystickLeft j d = d"

definition onJoystickRight :: "display callback" where
  "onJoystickRight j d = d"

definition onJoystickCenter :: "display callback" where
  "onJoystickCenter j d = d"

definition onJoystickSwitch :: "display callback" where
  "onJoystickSwitch j d = d"

definition initJoystick_callbacks :: "display callbacks" where
  "initJoystick_callbacks =
     onSwitch (Some onJoystickSwitch)
       (onCenter (Some onJoystickCenter)
          (onRight (Some onJoystickRight)
             (onLeft (Some onJoystickLeft)
                (onDown (Some onJoystickDown)
                   (onUp (Some onJoystickUp) noCallbacks)))))"

text \<open>A sequence of scroll calls.\<close>

datatype scroll_call = ScrollUp | ScrollDown

fun scroll :: "scroll_call \<Rightarrow> display \<Rightarrow> display" where
  "scroll ScrollUp d = scrollUp d"
| "scroll ScrollDown d = scrollDown d"

fun scrolls :: "scroll_call list \<Rightarrow> display \<Rightarrow> display" where
  "scrolls [] d = d"
| "scrolls (c # cs) d = scrolls cs (scroll c d)"

text \<open>The redraw that \<open>updateDisplay\<close> performs at a given offset: the commands it sends.\<close>

definition redraw :: "int \<Rightarrow> lcd_cmd list" where
  "redraw offset = lcd (updateDisplay \<lparr> displayOffset = offset, maxDisplayOffset = 0, lcd = [] \<rparr>)"

section \<open>Scenarios\<close>

text \<open>
  The calibration of the end-to-end scenario of the specification (minimum 0, maximum
  4095, centre 2000, deadzone 500, no inversion), the hardware readings of one poll,
  and three states reached from the start: after a poll at time 60 that confirms a
  press of the button, after a poll at time 60 that confirms both a press and a move to
  the right, and after a poll at time 60 that confirms a move to the right with the
  button released.
\<close>

definition scenario_joystick :: joystick where
  "scenario_joystick = setThresholds 0 4095 2000 500 (Joystick JOY_X_PIN JOY_Y_PIN JOY_SW_PIN)"

definition poll :: "time \<Rightarrow> int \<Rightarrow> int \<Rightarrow> pin_level \<Rightarrow> inputs" where
  "poll t x y sw = \<lparr> millis = t, analogReadX = x, analogReadY = y, digitalReadSwitch = sw \<rparr>"

definition pressed_joystick :: joystick where
  "pressed_joystick = fst (update loggers (poll 60 2000 2000 LOW) (scenario_joystick, []))"

definition right_pressed_joystick :: joystick where
  "right_pressed_joystick = fst (update loggers (poll 60 2600 2000 LOW) (scenario_joystick, []))"

definition right_joystick :: joystick where
  "right_joystick = fst (update loggers (poll 60 2600 2000 HIGH) (scenario_joystick, []))"

section \<open>Properties of the position calculation\<close>

lemma calculatePosition_deltas:
  "calculatePosition j =
     (if \<bar>deltaX j\<bar> < deadzone j \<and> \<bar>deltaY j\<bar> < deadzone j then JOY_CENTER
      else if \<bar>deltaX j\<bar> > \<bar>deltaY j\<bar> then (if deltaX j > 0 then JOY_RIGHT else JOY_LEFT)
      else (if deltaY j > 0 then JOY_UP else JOY_DOWN))"
  by (simp add: calculatePosition_def deltaX_def deltaY_def reflect_def Let_def)

lemma delta_invertX:
  "deltaX (j\<lparr>invertX := True, currentX := x, currentY := y\<rparr>)
     = deltaX (j\<lparr>invertX := False, currentX := maxVal j - (x - minVal j) + minVal j,
                 currentY := y\<rparr>)"
  "deltaY (j\<lparr>invertX := True, currentX := x, currentY := y\<rparr>)
     = deltaY (j\<lparr>invertX := False, currentX := maxVal j - (x - minVal j) + minVal j,
                 currentY := y\<rparr>)"
  by (simp_all add: deltaX_def deltaY_def reflect_def)

lemma delta_invertY:
  "deltaX (j\<lparr>invertY := True, currentX := x, currentY := y\<rparr>)
     = deltaX (j\<lparr>invertY := False, currentX := x,
                 currentY := maxVal j - (y - minVal j) + minVal j\<rparr>)"
  "deltaY (j\<lparr>invertY := True, currentX := x, currentY := y\<rparr>)
     = deltaY (j\<lparr>invertY := False, currentX := x,
                 currentY := maxVal j - (y - minVal j) + minVal j\<rparr>)"
  by (simp_all add: deltaX_def deltaY_def reflect_def)

text \<open>
  Claim C6. \<open>calculatePosition\<close> returns \<open>JOY_CENTER\<close> exactly when both deltas
  (taken from the centre value after any axis inversion) are strictly smaller in
  magnitude than the deadzone. Otherwise, when \<open>|deltaX| > |deltaY|\<close> it returns
  \<open>JOY_RIGHT\<close> for \<open>deltaX > 0\<close> and \<open>JOY_LEFT\<close> for \<open>deltaX \<le> 0\<close>; when
  \<open>|deltaX| \<le> |deltaY|\<close>, ties included, it returns \<open>JOY_UP\<close> for \<open>deltaY > 0\<close>
  and \<open>JOY_DOWN\<close> for \<open>deltaY \<le> 0\<close>. With centre 2000 and deadzone 500, the sample
  \<open>x = 2499, y = 2000\<close> is \<open>JOY_CENTER\<close> and \<open>x = 2500, y = 2000\<close> is
  \<open>JOY_RIGHT\<close>.
\<close>

theorem calculatePosition_classification:
  "(calculatePosition j = JOY_CENTER \<longleftrightarrow>
      \<bar>deltaX j\<bar> < deadzone j \<and> \<bar>deltaY j\<bar> < deadzone j)
   \<and> calculatePosition j =
       (if \<bar>deltaX j\<bar> < deadzone j \<and> \<bar>deltaY j\<bar> < deadzone j then JOY_CENTER
        else if \<bar>deltaX j\<bar> > \<bar>deltaY j\<bar> then (if deltaX j > 0 then JOY_RIGHT else JOY_LEFT)
        else (if deltaY j > 0 then JOY_UP else JOY_DOWN))
   \<and> classify 2499 2000 (setThresholds 0 4095 2000 500 (Joystick 34 35 32)) = JOY_CENTER
   \<and> classify 2500 2000 (setThresholds 0 4095 2000 500 (Joystick 34 35 32)) = JOY_RIGHT"
  by (simp add: calculatePosition_deltas classify_def deltaX_def deltaY_def reflect_def
        setThresholds_def Joystick_def)

text \<open>
  Claim C7. For every calibration and every sample, classifying with \<open>invertX\<close> set
  on \<open>x\<close> gives the same position as classifying with \<open>invertX\<close> cleared on the
  reflected sample \<open>maxVal - (x - minVal) + minVal\<close>; likewise for \<open>invertY\<close> and
  \<open>y\<close>.
\<close>

theorem inversion_is_reflection:
  "classify x y (j\<lparr>invertX := True\<rparr>)
     = classify (maxVal j - (x - minVal j) + minVal j) y (j\<lparr>invertX := False\<rparr>)
   \<and> classify x y (j\<lparr>invertY := True\<rparr>)
     = classify x (maxVal j - (y - minVal j) + minVal j) (j\<lparr>invertY := False\<rparr>)"
proof
  show "classify x y (j\<lparr>invertX := True\<rparr>)
     = classify (maxVal j - (x - minVal j) + minVal j) y (j\<lparr>invertX := False\<rparr>)"
    unfolding classify_def calculatePosition_deltas by (simp add: delta_invertX)
next
  show "classify x y (j\<lparr>invertY := True\<rparr>)
     = classify x (maxVal j - (y - minVal j) + minVal j) (j\<lparr>invertY := False\<rparr>)"
    unfolding classify_def calculatePosition_deltas by (simp add: delta_invertY)
qed

text \<open>
  Claim C9. With a deadzone of 0, \<open>calculatePosition\<close> never returns
  \<open>JOY_CENTER\<close>; a sample exactly at the calibrated centre (both deltas 0) is
  classified as \<open>JOY_DOWN\<close>.
\<close>

theorem zero_deadzone_never_center:
  "deadzone j = 0 \<Longrightarrow>
     calculatePosition j \<noteq> JOY_CENTER \<and>
     (deltaX j = 0 \<and> deltaY j = 0 \<longrightarrow> calculatePosition j = JOY_DOWN)"
  by (simp add: calculatePosition_deltas)

theorem zero_deadzone_never_center_witness:
  "deadzone ((setThresholds 0 4095 2000 0 (Joystick 34 35 32))\<lparr>currentX := 2000, currentY := 2000\<rparr>) = 0
   \<and> deltaX ((setThresholds 0 4095 2000 0 (Joystick 34 35 32))\<lparr>currentX := 2000, currentY := 2000\<rparr>) = 0
   \<and> deltaY ((setThresholds 0 4095 2000 0 (Joystick 34 35 32))\<lparr>currentX := 2000, currentY := 2000\<rparr>) = 0
   \<and> calculatePosition ((setThresholds 0 4095 2000 0 (Joystick 34 35 32))\<lparr>currentX := 2000, currentY := 2000\<rparr>) \<noteq> JOY_CENTER
   \<and> calculatePosition ((setThresholds 0 4095 2000 0 (Joystick 34 35 32))\<lparr>currentX := 2000, currentY := 2000\<rparr>) = JOY_DOWN"
  using zero_deadzone_never_center
    [of "(setThresholds 0 4095 2000 0 (Joystick 34 35 32))\<lparr>currentX := 2000, currentY := 2000\<rparr>"]
  by (simp add: setThresholds_def Joystick_def deltaX_def deltaY_def)

section \<open>Properties of polling\<close>

lemmas scenario_defs =
  scenario_joystick_def poll_def setThresholds_def Joystick_def
  JOY_X_PIN_def JOY_Y_PIN_def JOY_SW_PIN_def debounceDelay_def

lemmas reading_defs =
  newPosition_def classify_def calculatePosition_def switchReading_def
  position_confirmed_def switch_confirmed_def

lemma update_switch_cases:
  "update_switch cb inp j w =
     (if switchReading inp \<noteq> previousSwitch j \<and> millis inp - lastSwitchTime j > debounceDelay
      then (j\<lparr>previousSwitch := switchReading inp, lastSwitchTime := millis inp,
              currentSwitch := switchReading inp\<rparr>,
            if switchReading inp then invoke (callbackSwitch cb) j w else w)
      else (j\<lparr>currentSwitch := switchReading inp\<rparr>, w))"
  by (auto simp add: update_switch_def switchReading_def Let_def)

lemma update_position_cases:
  "update_position cb inp j w =
     (if calculatePosition j \<noteq> previousPosition j \<and> millis inp - lastPositionTime j > debounceDelay
      then (j\<lparr>previousPosition := calculatePosition j, currentPosition := calculatePosition j,
              lastPositionTime := millis inp\<rparr>,
            invoke (positionCallback cb (calculatePosition j)) j w)
      else (j, w))"
  by (cases "calculatePosition j") (simp_all add: update_position_def Let_def)

lemma calculatePosition_frame:
  "calculatePosition (j\<lparr>currentSwitch := c\<rparr>) = calculatePosition j"
  "calculatePosition (j\<lparr>previousSwitch := a, lastSwitchTime := b, currentSwitch := c\<rparr>)
     = calculatePosition j"
  "calculatePosition (j\<lparr>previousSwitch := a, lastSwitchTime := b\<rparr>) = calculatePosition j"
  by (simp_all add: calculatePosition_def cong: if_cong)

lemma newPosition_read: "calculatePosition (update_read inp j) = newPosition j inp"
  by (simp add: newPosition_def classify_def update_read_def)

lemma update_switch_frame:
  "calculatePosition (fst (update_switch cb inp j w)) = calculatePosition j"
  "previousPosition (fst (update_switch cb inp j w)) = previousPosition j"
  "lastPositionTime (fst (update_switch cb inp j w)) = lastPositionTime j"
  "currentPosition (fst (update_switch cb inp j w)) = currentPosition j"
  "currentSwitch (fst (update_switch cb inp j w)) = switchReading inp"
  by (simp_all add: update_switch_cases calculatePosition_frame)

lemma update_read_frame:
  "previousPosition (update_read inp j) = previousPosition j"
  "lastPositionTime (update_read inp j) = lastPositionTime j"
  "currentPosition (update_read inp j) = currentPosition j"
  "previousSwitch (update_read inp j) = previousSwitch j"
  "lastSwitchTime (update_read inp j) = lastSwitchTime j"
  by (simp_all add: update_read_def)

lemma update_cases:
  "update cb inp (j, w) =
     (if position_confirmed j inp
      then ((fst (update_switch cb inp (update_read inp j) w))
              \<lparr>previousPosition := newPosition j inp, currentPosition := newPosition j inp,
               lastPositionTime := millis inp\<rparr>,
            invoke (positionCallback cb (newPosition j inp))
              (fst (update_switch cb inp (update_read inp j) w))
              (snd (update_switch cb inp (update_read inp j) w)))
      else update_switch cb inp (update_read inp j) w)"
  by (simp add: update_def Let_def split_beta update_position_cases update_switch_frame
        update_read_frame newPosition_read position_confirmed_def)

lemma update_switch_fields:
  "previousSwitch (fst (update_switch cb inp (update_read inp j) w)) =
     (if switch_confirmed j inp then switchReading inp else previousSwitch j)"
  "lastSwitchTime (fst (update_switch cb inp (update_read inp j) w)) =
     (if switch_confirmed j inp then millis inp else lastSwitchTime j)"
  "snd (update_switch cb inp (update_read inp j) w) =
     (if switch_confirmed j inp \<and> switchReading inp
      then invoke (callbackSwitch cb) (update_read inp j) w else w)"
  by (simp_all add: update_switch_cases update_read_frame switch_confirmed_def)

lemma update_fields:
  "previousSwitch (fst (update cb inp (j, w))) =
     (if switch_confirmed j inp then switchReading inp else previousSwitch j)"
  "lastSwitchTime (fst (update cb inp (j, w))) =
     (if switch_confirmed j inp then millis inp else lastSwitchTime j)"
  "previousPosition (fst (update cb inp (j, w))) =
     (if position_confirmed j inp then newPosition j inp else previousPosition j)"
  "lastPositionTime (fst (update cb inp (j, w))) =
     (if position_confirmed j inp then millis inp else lastPositionTime j)"
  "currentPosition (fst (update cb inp (j, w))) =
     (if position_confirmed j inp then newPosition j inp else currentPosition j)"
  "currentSwitch (fst (update cb inp (j, w))) = switchReading inp"
  by (simp_all add: update_cases update_switch_fields update_switch_frame update_read_frame)

lemma update_world:
  "snd (update cb inp (j, w)) =
     (if position_confirmed j inp
      then invoke (positionCallback cb (newPosition j inp))
             (fst (update_switch cb inp (update_read inp j) w))
             (snd (update_switch cb inp (update_read inp j) w))
      else snd (update_switch cb inp (update_read inp j) w))"
  by (simp add: update_cases)

lemma positionCallback_loggers:
  "positionCallback loggers p = Some (logEvent (positionEvent p))"
  by (cases p) (simp_all add: loggers_def)

lemma positionEvent_not_switch: "positionEvent p \<noteq> EvSwitch"
  by (cases p) simp_all

lemma callbackSwitch_loggers: "callbackSwitch loggers = Some (logEvent EvSwitch)"
  by (simp add: loggers_def)

lemma update_loggers_trace:
  "snd (update loggers inp (j, tr)) =
     tr @ (if switch_confirmed j inp \<and> switchReading inp then [(EvSwitch, update_read inp j)] else [])
        @ (if position_confirmed j inp
           then [(positionEvent (newPosition j inp), fst (update_switch loggers inp (update_read inp j) tr))]
           else [])"
  by (simp add: update_world update_switch_fields positionCallback_loggers callbackSwitch_loggers logEvent_def)

lemma pressed_joystick_eq:
  "pressed_joystick = scenario_joystick\<lparr>currentX := 2000, currentY := 2000, currentSwitch := True, previousSwitch := True, lastSwitchTime := 60\<rparr>"
  by (simp add: pressed_joystick_def update_cases update_switch_cases update_read_def scenario_defs reading_defs)


lemma right_joystick_eq:
  "right_joystick = scenario_joystick\<lparr>currentX := 2600, currentY := 2000,
      currentPosition := JOY_RIGHT, previousPosition := JOY_RIGHT, lastPositionTime := 60\<rparr>"
  by (simp add: right_joystick_def update_cases update_switch_cases update_read_def
        scenario_defs reading_defs)

lemma right_pressed_joystick_eq:
  "right_pressed_joystick = scenario_joystick\<lparr>currentX := 2600, currentY := 2000, currentSwitch := True,
      currentPosition := JOY_RIGHT, previousPosition := JOY_RIGHT, previousSwitch := True,
      lastSwitchTime := 60, lastPositionTime := 60\<rparr>"
  by (simp add: right_pressed_joystick_def update_cases update_switch_cases update_read_def scenario_defs reading_defs)


text \<open>
  Claim C4. In every poll in which the classified position differs from the stable
  position (\<open>_previousPosition\<close>) and \<open>now - _lastPositionTime > 50\<close>, the position
  channel invokes exactly one handler, the one registered for the new position (the
  centre handler when the stick returns to the centre), and none when that slot is
  empty; the stable position becomes the new position and \<open>_lastPositionTime\<close>
  becomes \<open>now\<close>. The handler acts on the state that the switch channel of the same
  poll has left.
\<close>

theorem confirmed_position_dispatch:
  assumes "newPosition j inp \<noteq> previousPosition j"
      and "millis inp - lastPositionTime j > debounceDelay"
  shows "snd (update cb inp (j, w)) =
           invoke (positionCallback cb (newPosition j inp))
             (fst (update_switch cb inp (update_read inp j) w))
             (snd (update_switch cb inp (update_read inp j) w))
       \<and> (newPosition j inp = JOY_CENTER \<longrightarrow>
            snd (update cb inp (j, w)) =
              invoke (callbackCenter cb)
                (fst (update_switch cb inp (update_read inp j) w))
                (snd (update_switch cb inp (update_read inp j) w)))
       \<and> (positionCallback cb (newPosition j inp) = None \<longrightarrow>
            snd (update cb inp (j, w)) = snd (update_switch cb inp (update_read inp j) w))
       \<and> filter (\<lambda>e. e \<noteq> EvSwitch) (map fst (snd (update loggers inp (j, []))))
            = [positionEvent (newPosition j inp)]
       \<and> previousPosition (fst (update cb inp (j, w))) = newPosition j inp
       \<and> lastPositionTime (fst (update cb inp (j, w))) = millis inp"
proof -
  from assms have c: "position_confirmed j inp"
    by (simp add: position_confirmed_def)
  have called: "snd (update cb inp (j, w)) =
           invoke (positionCallback cb (newPosition j inp))
             (fst (update_switch cb inp (update_read inp j) w))
             (snd (update_switch cb inp (update_read inp j) w))"
    using c by (simp add: update_world)
  have logged: "filter (\<lambda>e. e \<noteq> EvSwitch) (map fst (snd (update loggers inp (j, []))))
            = [positionEvent (newPosition j inp)]"
    using c by (simp add: update_loggers_trace positionEvent_not_switch)
  have stored: "previousPosition (fst (update cb inp (j, w))) = newPosition j inp"
    "lastPositionTime (fst (update cb inp (j, w))) = millis inp"
    using c by (simp_all add: update_fields)
  show ?thesis using called logged stored by simp
qed

theorem confirmed_position_dispatch_witness:
  "newPosition right_pressed_joystick (poll 120 2000 2000 LOW)
     \<noteq> previousPosition right_pressed_joystick
   \<and> millis (poll 120 2000 2000 LOW) - lastPositionTime right_pressed_joystick > debounceDelay
   \<and> newPosition right_pressed_joystick (poll 120 2000 2000 LOW) = JOY_CENTER
   \<and> positionCallback (noCallbacks :: unit callbacks)
        (newPosition right_pressed_joystick (poll 120 2000 2000 LOW)) = None
   \<and> snd (update noCallbacks (poll 120 2000 2000 LOW) (right_pressed_joystick, ())) = ()
   \<and> filter (\<lambda>e. e \<noteq> EvSwitch)
        (map fst (snd (update loggers (poll 120 2000 2000 LOW) (right_pressed_joystick, []))))
       = [EvCenter]
   \<and> previousPosition
        (fst (update noCallbacks (poll 120 2000 2000 LOW) (right_pressed_joystick, ())))
       = JOY_CENTER
   \<and> lastPositionTime
        (fst (update noCallbacks (poll 120 2000 2000 LOW) (right_pressed_joystick, ())))
       = 120"
  using confirmed_position_dispatch
    [of right_pressed_joystick "poll 120 2000 2000 LOW" noCallbacks "()"]
  by (simp add: right_pressed_joystick_eq scenario_defs reading_defs noCallbacks_def)

text \<open>
  Claim C8. On a confirmed edge of the button (the reading differs from
  \<open>_previousSwitch\<close> and the debounce window has elapsed), the switch handler is
  invoked if and only if the new state is pressed; a press and a release alike update
  \<open>_previousSwitch\<close> and \<open>_lastSwitchTime\<close>, so a release changes the state
  without the switch channel invoking any handler.
\<close>

theorem confirmed_switch_edge:
  assumes "switchReading inp \<noteq> previousSwitch j"
      and "millis inp - lastSwitchTime j > debounceDelay"
  shows "snd (update_switch cb inp (update_read inp j) w) =
           (if switchReading inp then invoke (callbackSwitch cb) (update_read inp j) w else w)
       \<and> filter (\<lambda>e. e = EvSwitch) (map fst (snd (update loggers inp (j, []))))
            = (if switchReading inp then [EvSwitch] else [])
       \<and> previousSwitch (fst (update cb inp (j, w))) = switchReading inp
       \<and> lastSwitchTime (fst (update cb inp (j, w))) = millis inp"
proof -
  from assms have c: "switch_confirmed j inp"
    by (simp add: switch_confirmed_def)
  have called: "snd (update_switch cb inp (update_read inp j) w) =
           (if switchReading inp then invoke (callbackSwitch cb) (update_read inp j) w else w)"
    using c by (simp add: update_switch_fields)
  have logged: "filter (\<lambda>e. e = EvSwitch) (map fst (snd (update loggers inp (j, []))))
            = (if switchReading inp then [EvSwitch] else [])"
    using c by (simp add: update_loggers_trace positionEvent_not_switch)
  have stored: "previousSwitch (fst (update cb inp (j, w))) = switchReading inp"
    "lastSwitchTime (fst (update cb inp (j, w))) = millis inp"
    using c by (simp_all add: update_fields)
  show ?thesis using called logged stored by simp
qed

theorem confirmed_switch_edge_witness:
  "switchReading (poll 120 2000 2000 HIGH) \<noteq> previousSwitch pressed_joystick
   \<and> millis (poll 120 2000 2000 HIGH) - lastSwitchTime pressed_joystick > debounceDelay
   \<and> snd (update_switch noCallbacks (poll 120 2000 2000 HIGH)
            (update_read (poll 120 2000 2000 HIGH) pressed_joystick) ()) = ()
   \<and> filter (\<lambda>e. e = EvSwitch)
        (map fst (snd (update loggers (poll 120 2000 2000 HIGH) (pressed_joystick, [])))) = []
   \<and> previousSwitch
        (fst (update noCallbacks (poll 120 2000 2000 HIGH) (pressed_joystick, ()))) = False
   \<and> lastSwitchTime
        (fst (update noCallbacks (poll 120 2000 2000 HIGH) (pressed_joystick, ()))) = 120"
  using confirmed_switch_edge [of "poll 120 2000 2000 HIGH" pressed_joystick noCallbacks "()"]
  by (simp add: pressed_joystick_eq scenario_defs reading_defs)

text \<open>
  Claim C5 says that a poll in which the reading differs from the stable value inside
  the debounce window invokes no handler and leaves \<open>_previousPosition\<close>,
  \<open>_previousSwitch\<close>, \<open>_lastPositionTime\<close> and \<open>_lastSwitchTime\<close> all
  unchanged. Each channel is debounced on its own timestamp. After a move to the right
  confirmed at time 60 with the button released, the poll at time 70 that reads the
  stick at the centre and the button pressed drops the position reading (10 since the
  last position change), while the switch channel confirms the press (70 since the last
  switch change): the switch handler runs, \<open>_previousSwitch\<close> becomes \<open>True\<close> and
  \<open>_lastSwitchTime\<close> becomes 70.
\<close>

theorem dropped_position_with_confirmed_press:
  "position_dropped right_joystick (poll 70 2000 2000 LOW)
   \<and> newPosition right_joystick (poll 70 2000 2000 LOW) = JOY_CENTER
   \<and> previousPosition right_joystick = JOY_RIGHT
   \<and> lastPositionTime right_joystick = 60
   \<and> previousSwitch right_joystick = False
   \<and> lastSwitchTime right_joystick = 0
   \<and> map fst (snd (update loggers (poll 70 2000 2000 LOW) (right_joystick, []))) = [EvSwitch]
   \<and> previousSwitch (fst (update loggers (poll 70 2000 2000 LOW) (right_joystick, []))) = True
   \<and> lastSwitchTime (fst (update loggers (poll 70 2000 2000 LOW) (right_joystick, []))) = 70
   \<and> previousPosition (fst (update loggers (poll 70 2000 2000 LOW) (right_joystick, [])))
       = JOY_RIGHT
   \<and> lastPositionTime (fst (update loggers (poll 70 2000 2000 LOW) (right_joystick, []))) = 60"
  by (simp add: right_joystick_eq update_loggers_trace update_fields scenario_defs reading_defs
        position_dropped_def)

text \<open>
  Claim C5, amended. When the reading of a channel differs from that channel's stable
  value but the debounce window of 50 since that channel's last confirmed change has not
  elapsed, the reading is dropped: that channel invokes no handler and its stable value
  and its timestamp keep their values, so its timer is not re-armed. The other channel
  is debounced on its own timestamp and may confirm a transition of its own in the same
  poll. In a poll in which no channel confirms a transition, no handler is invoked at
  all and \<open>_previousPosition\<close>, \<open>_previousSwitch\<close>, \<open>_lastPositionTime\<close> and
  \<open>_lastSwitchTime\<close> are all unchanged.
\<close>

theorem dropped_reading_frame:
  "(switch_dropped j inp \<longrightarrow>
      snd (update_switch cb inp (update_read inp j) w) = w
      \<and> previousSwitch (fst (update cb inp (j, w))) = previousSwitch j
      \<and> lastSwitchTime (fst (update cb inp (j, w))) = lastSwitchTime j)
   \<and> (position_dropped j inp \<longrightarrow>
      snd (update cb inp (j, w)) = snd (update_switch cb inp (update_read inp j) w)
      \<and> previousPosition (fst (update cb inp (j, w))) = previousPosition j
      \<and> lastPositionTime (fst (update cb inp (j, w))) = lastPositionTime j)
   \<and> (\<not> switch_confirmed j inp \<and> \<not> position_confirmed j inp \<longrightarrow>
      snd (update cb inp (j, w)) = w
      \<and> previousPosition (fst (update cb inp (j, w))) = previousPosition j
      \<and> previousSwitch (fst (update cb inp (j, w))) = previousSwitch j
      \<and> lastPositionTime (fst (update cb inp (j, w))) = lastPositionTime j
      \<and> lastSwitchTime (fst (update cb inp (j, w))) = lastSwitchTime j)"
proof -
  have sw: "switch_dropped j inp \<Longrightarrow> \<not> switch_confirmed j inp"
    by (simp add: switch_dropped_def switch_confirmed_def)
  have pos: "position_dropped j inp \<Longrightarrow> \<not> position_confirmed j inp"
    by (simp add: position_dropped_def position_confirmed_def)
  show ?thesis
    using sw pos by (auto simp add: update_fields update_world update_switch_fields)
qed

theorem dropped_reading_frame_witness:
  "switch_dropped right_pressed_joystick (poll 70 2000 2000 HIGH)
   \<and> position_dropped right_pressed_joystick (poll 70 2000 2000 HIGH)
   \<and> \<not> switch_confirmed right_pressed_joystick (poll 70 2000 2000 HIGH)
   \<and> \<not> position_confirmed right_pressed_joystick (poll 70 2000 2000 HIGH)
   \<and> snd (update loggers (poll 70 2000 2000 HIGH) (right_pressed_joystick, [])) = []
   \<and> previousPosition
        (fst (update loggers (poll 70 2000 2000 HIGH) (right_pressed_joystick, []))) = JOY_RIGHT
   \<and> previousSwitch
        (fst (update loggers (poll 70 2000 2000 HIGH) (right_pressed_joystick, []))) = True
   \<and> lastPositionTime
        (fst (update loggers (poll 70 2000 2000 HIGH) (right_pressed_joystick, []))) = 60
   \<and> lastSwitchTime
        (fst (update loggers (poll 70 2000 2000 HIGH) (right_pressed_joystick, []))) = 60"
  using dropped_reading_frame [of right_pressed_joystick "poll 70 2000 2000 HIGH" loggers "[]"]
  by (simp add: right_pressed_joystick_eq scenario_defs reading_defs
        switch_dropped_def position_dropped_def)

text \<open>
  Claim C2 says that when a poll confirms a transition, the stable state and its
  timestamp are already updated when the handler is invoked. In the poll at time 60
  that confirms both a press and a move to the right, the switch handler is called
  while \<open>_previousSwitch\<close> is still \<open>False\<close> and \<open>_lastSwitchTime\<close> still 0, and
  the right handler while \<open>_previousPosition\<close> is still \<open>JOY_CENTER\<close> and
  \<open>_lastPositionTime\<close> still 0.
\<close>

theorem callback_sees_uncommitted_state:
  "switch_confirmed scenario_joystick (poll 60 2600 2000 LOW)
   \<and> position_confirmed scenario_joystick (poll 60 2600 2000 LOW)
   \<and> switchReading (poll 60 2600 2000 LOW) = True
   \<and> newPosition scenario_joystick (poll 60 2600 2000 LOW) = JOY_RIGHT
   \<and> millis (poll 60 2600 2000 LOW) = 60
   \<and> map seenAtCall (snd (update loggers (poll 60 2600 2000 LOW) (scenario_joystick, [])))
       = [(EvSwitch, JOY_CENTER, 0, False, 0), (EvRight, JOY_CENTER, 0, True, 60)]"
  by (simp add: update_loggers_trace update_switch_cases update_read_def
        scenario_defs reading_defs)

text \<open>
  Claim C2, amended. When a poll confirms a transition, the registered handler is
  invoked first, on a joystick whose stable value (\<open>_previousSwitch\<close> or
  \<open>_previousPosition\<close>) and timestamp still hold the values from before the poll;
  the stable value and the timestamp are assigned after the handler has returned, so
  they hold the new value and \<open>now\<close> when the poll ends.
\<close>

theorem callback_runs_before_commit:
  "(switch_confirmed j inp \<and> switchReading inp \<longrightarrow>
      snd (update_switch cb inp (update_read inp j) w)
        = invoke (callbackSwitch cb) (update_read inp j) w
      \<and> previousSwitch (update_read inp j) = previousSwitch j
      \<and> lastSwitchTime (update_read inp j) = lastSwitchTime j
      \<and> previousSwitch (update_read inp j) \<noteq> switchReading inp
      \<and> previousSwitch (fst (update cb inp (j, w))) = switchReading inp
      \<and> lastSwitchTime (fst (update cb inp (j, w))) = millis inp)
   \<and> (position_confirmed j inp \<longrightarrow>
      snd (update cb inp (j, w))
        = invoke (positionCallback cb (newPosition j inp))
            (fst (update_switch cb inp (update_read inp j) w))
            (snd (update_switch cb inp (update_read inp j) w))
      \<and> previousPosition (fst (update_switch cb inp (update_read inp j) w)) = previousPosition j
      \<and> lastPositionTime (fst (update_switch cb inp (update_read inp j) w)) = lastPositionTime j
      \<and> previousPosition (fst (update_switch cb inp (update_read inp j) w)) \<noteq> newPosition j inp
      \<and> previousPosition (fst (update cb inp (j, w))) = newPosition j inp
      \<and> lastPositionTime (fst (update cb inp (j, w))) = millis inp)"
  by (auto simp add: update_fields update_world update_switch_fields update_switch_frame
        update_read_frame switch_confirmed_def position_confirmed_def)

theorem callback_runs_before_commit_witness:
  "switch_confirmed scenario_joystick (poll 60 2600 2000 LOW)
   \<and> switchReading (poll 60 2600 2000 LOW)
   \<and> position_confirmed scenario_joystick (poll 60 2600 2000 LOW)
   \<and> snd (update_switch loggers (poll 60 2600 2000 LOW)
            (update_read (poll 60 2600 2000 LOW) scenario_joystick) [])
       = [(EvSwitch, update_read (poll 60 2600 2000 LOW) scenario_joystick)]
   \<and> previousSwitch (update_read (poll 60 2600 2000 LOW) scenario_joystick) = False
   \<and> lastSwitchTime (update_read (poll 60 2600 2000 LOW) scenario_joystick) = 0
   \<and> previousSwitch (fst (update loggers (poll 60 2600 2000 LOW) (scenario_joystick, []))) = True
   \<and> lastSwitchTime (fst (update loggers (poll 60 2600 2000 LOW) (scenario_joystick, []))) = 60
   \<and> previousPosition (fst (update_switch loggers (poll 60 2600 2000 LOW)
            (update_read (poll 60 2600 2000 LOW) scenario_joystick) [])) = JOY_CENTER
   \<and> lastPositionTime (fst (update_switch loggers (poll 60 2600 2000 LOW)
            (update_read (poll 60 2600 2000 LOW) scenario_joystick) [])) = 0
   \<and> previousPosition (fst (update loggers (poll 60 2600 2000 LOW) (scenario_joystick, [])))
       = JOY_RIGHT
   \<and> lastPositionTime (fst (update loggers (poll 60 2600 2000 LOW) (scenario_joystick, [])))
       = 60"
  using callback_runs_before_commit [of scenario_joystick "poll 60 2600 2000 LOW" loggers "[]"]
  by (simp add: scenario_defs reading_defs callbackSwitch_loggers logEvent_def)

text \<open>
  Claim C10. \<open>isSwitchPressed()\<close> returns the raw button reading of the most recent
  poll, which every poll stores whatever the debounce check decides, so it can differ
  from the debounced \<open>_previousSwitch\<close> (as after a first poll at time 10 that reads
  the button pressed); \<open>getPosition()\<close> returns a position that changes only when a
  poll confirms a position transition.
\<close>

theorem raw_switch_and_debounced_position:
  "isSwitchPressed (fst (update cb inp (j, w))) = switchReading inp
   \<and> previousSwitch (fst (update cb inp (j, w))) =
       (if switch_confirmed j inp then switchReading inp else previousSwitch j)
   \<and> getPosition (fst (update cb inp (j, w))) =
       (if position_confirmed j inp then newPosition j inp else getPosition j)
   \<and> isSwitchPressed
        (fst (update noCallbacks (poll 10 2000 2000 LOW) (scenario_joystick, ()))) = True
   \<and> previousSwitch
        (fst (update noCallbacks (poll 10 2000 2000 LOW) (scenario_joystick, ()))) = False"
  by (simp add: isSwitchPressed_def getPosition_def update_fields scenario_defs reading_defs)

section \<open>Properties of display navigation\<close>

declare updateDisplay_from.simps [simp del]

lemma send_fields:
  "displayOffset (send cmds d) = displayOffset d"
  "maxDisplayOffset (send cmds d) = maxDisplayOffset d"
  "lcd (send cmds d) = lcd d @ cmds"
  by (simp_all add: send_def)

lemma print_menu_fields:
  "displayOffset (print_menu i x row d) = displayOffset d"
  "maxDisplayOffset (print_menu i x row d) = maxDisplayOffset d"
  by (simp_all add: print_menu_def Let_def send_fields)

lemma updateDisplay_row_fields:
  "displayOffset (updateDisplay_row row d) = displayOffset d"
  "maxDisplayOffset (updateDisplay_row row d) = maxDisplayOffset d"
  by (simp_all add: updateDisplay_row_def Let_def print_menu_fields send_fields)

lemma updateDisplay_from_fields:
  "displayOffset (updateDisplay_from row d) = displayOffset d \<and>
   maxDisplayOffset (updateDisplay_from row d) = maxDisplayOffset d"
proof (induction row d rule: updateDisplay_from.induct)
  case (1 row d)
  show ?case
  proof (cases "row < LCD_ROWS")
    case True
    with 1 show ?thesis
      by (simp add: updateDisplay_from.simps [of row d] updateDisplay_row_fields)
  next
    case False
    then show ?thesis
      by (simp add: updateDisplay_from.simps [of row d])
  qed
qed

lemma updateDisplay_fields:
  "displayOffset (updateDisplay d) = displayOffset d"
  "maxDisplayOffset (updateDisplay d) = maxDisplayOffset d"
  by (simp_all add: updateDisplay_def updateDisplay_from_fields)

lemma scrollDown_fields:
  "displayOffset (scrollDown d) =
     (if displayOffset d < maxDisplayOffset d + 4 then displayOffset d + 1 else displayOffset d)"
  "maxDisplayOffset (scrollDown d) = maxDisplayOffset d"
  by (simp_all add: scrollDown_def Let_def send_fields updateDisplay_fields)

lemma scrollUp_fields:
  "displayOffset (scrollUp d) =
     (if displayOffset d > 0 then displayOffset d - 1 else displayOffset d)"
  "maxDisplayOffset (scrollUp d) = maxDisplayOffset d"
  by (simp_all add: scrollUp_def Let_def send_fields updateDisplay_fields)

lemma scroll_bounds:
  "0 \<le> displayOffset d \<Longrightarrow> displayOffset d \<le> maxDisplayOffset d + 4 \<Longrightarrow>
     0 \<le> displayOffset (scroll c d) \<and> displayOffset (scroll c d) \<le> maxDisplayOffset d + 4
     \<and> maxDisplayOffset (scroll c d) = maxDisplayOffset d"
  by (cases c) (simp_all add: scrollDown_fields scrollUp_fields)

lemma scrolls_bounds:
  "0 \<le> displayOffset d \<Longrightarrow> displayOffset d \<le> maxDisplayOffset d + 4 \<Longrightarrow>
     0 \<le> displayOffset (scrolls cs d) \<and> displayOffset (scrolls cs d) \<le> maxDisplayOffset d + 4
     \<and> maxDisplayOffset (scrolls cs d) = maxDisplayOffset d"
proof (induction cs arbitrary: d)
  case Nil
  then show ?case by simp
next
  case (Cons c cs)
  from scroll_bounds [OF Cons.prems, of c]
  have s: "0 \<le> displayOffset (scroll c d)"
    "displayOffset (scroll c d) \<le> maxDisplayOffset (scroll c d) + 4"
    "maxDisplayOffset (scroll c d) = maxDisplayOffset d"
    by simp_all
  from Cons.IH [OF s(1) s(2)] s(3) show ?case by simp
qed

lemma initDisplay_fields:
  "displayOffset (initDisplay d) = displayOffset d"
  "maxDisplayOffset (initDisplay d) = max 0 (NUM_SENSORS - LCD_ROWS)"
  by (simp_all add: initDisplay_def Let_def send_fields)

lemma redraw_0:
  "redraw 0 = [LcdSetCursor 0 0, LcdPrintSensorData 0, LcdSetCursor 0 1, LcdPrintSensorData 1,
     LcdSetCursor (- 4) 2, LcdPrintSensorData 2, LcdSetCursor (- 4) 3, LcdPrintSensorData 3]"
  by (simp add: redraw_def updateDisplay_def updateDisplay_from.simps updateDisplay_row_def
        print_menu_def send_def Let_def NUM_SENSORS_def LCD_ROWS_def)


text \<open>
  Claim C1 bounds the offset by \<open>maxOffset = max(0, itemCount - visibleRows)\<close>. With 8
  sensors and 4 rows \<open>maxOffset\<close> is 4; after \<open>setup()\<close> four calls of
  \<open>scrollDown()\<close> reach offset 4 and a fifth reaches 5.
\<close>

theorem scrollDown_exceeds_maxOffset:
  "maxDisplayOffset (initDisplay display0) = max 0 (8 - 4)
   \<and> displayOffset (initDisplay display0) = 0
   \<and> displayOffset
        (scrolls [ScrollDown, ScrollDown, ScrollDown, ScrollDown] (initDisplay display0)) = 4
   \<and> displayOffset
        (scrollDown
           (scrolls [ScrollDown, ScrollDown, ScrollDown, ScrollDown] (initDisplay display0))) = 5
   \<and> \<not> displayOffset
          (scrolls [ScrollDown, ScrollDown, ScrollDown, ScrollDown, ScrollDown]
             (initDisplay display0)) \<le> max 0 (8 - 4)"
  by (simp add: scrollDown_fields initDisplay_fields display0_def NUM_SENSORS_def LCD_ROWS_def)

text \<open>
  Claim C1, amended. For \<open>maxOffset = max(0, itemCount - visibleRows)\<close> and an offset
  starting between 0 and \<open>maxOffset + 4\<close> (the four menu rows after the sensors can be
  scrolled to as well), every sequence of \<open>scrollUp()\<close> and \<open>scrollDown()\<close> calls
  keeps \<open>0 \<le> offset \<le> maxOffset + 4\<close>: \<open>scrollDown()\<close> increments the offset
  only when \<open>offset < maxOffset + 4\<close> and leaves it unchanged at \<open>maxOffset + 4\<close>;
  \<open>scrollUp()\<close> decrements it only when \<open>offset > 0\<close> and leaves it unchanged at 0.
\<close>

theorem scroll_offset_bounds:
  assumes "maxDisplayOffset d = max 0 (itemCount - visibleRows)"
      and "0 \<le> displayOffset d"
      and "displayOffset d \<le> maxDisplayOffset d + 4"
  shows "0 \<le> displayOffset (scrolls cs d)
       \<and> displayOffset (scrolls cs d) \<le> max 0 (itemCount - visibleRows) + 4
       \<and> maxDisplayOffset (scrolls cs d) = max 0 (itemCount - visibleRows)
       \<and> displayOffset (scrollDown d) =
           (if displayOffset d < max 0 (itemCount - visibleRows) + 4
            then displayOffset d + 1 else displayOffset d)
       \<and> displayOffset (scrollUp d) =
           (if displayOffset d > 0 then displayOffset d - 1 else displayOffset d)"
  using scrolls_bounds [OF assms(2) assms(3), of cs] assms(1)
  by (simp add: scrollDown_fields scrollUp_fields)

theorem scroll_offset_bounds_witness:
  "maxDisplayOffset (initDisplay display0) = max 0 (NUM_SENSORS - LCD_ROWS)
   \<and> 0 \<le> displayOffset (initDisplay display0)
   \<and> displayOffset (initDisplay display0) \<le> maxDisplayOffset (initDisplay display0) + 4
   \<and> 0 \<le> displayOffset (scrolls [ScrollUp, ScrollDown, ScrollDown] (initDisplay display0))
   \<and> displayOffset (scrolls [ScrollUp, ScrollDown, ScrollDown] (initDisplay display0)) \<le> 8
   \<and> maxDisplayOffset (scrolls [ScrollUp, ScrollDown, ScrollDown] (initDisplay display0)) = 4
   \<and> displayOffset (scrollDown (initDisplay display0)) = 1
   \<and> displayOffset (scrollUp (initDisplay display0)) = 0"
  using scroll_offset_bounds
    [of "initDisplay display0" NUM_SENSORS LCD_ROWS "[ScrollUp, ScrollDown, ScrollDown]"]
  by (simp add: initDisplay_fields display0_def NUM_SENSORS_def LCD_ROWS_def)

text \<open>
  Claim C3 says that every call of \<open>scrollUp()\<close> and of \<open>scrollDown()\<close> issues a
  redraw, also when the offset is at its bound. The source clears the display on every
  call but calls \<open>updateDisplay()\<close> only inside the branch that changes the offset.
  Right after \<open>setup()\<close> the offset is 0, and \<open>scrollUp()\<close> sends the clear command
  and nothing else, where a redraw at offset 0 would send eight commands; likewise
  \<open>scrollDown()\<close> at offset 8.
\<close>

theorem scroll_at_bound_clears_without_redraw:
  "displayOffset (initDisplay display0) = 0
   \<and> lcd (scrollUp (initDisplay display0)) = lcd (initDisplay display0) @ [LcdClear]
   \<and> displayOffset (scrollUp (initDisplay display0)) = 0
   \<and> redraw 0 =
       [LcdSetCursor 0 0, LcdPrintSensorData 0, LcdSetCursor 0 1, LcdPrintSensorData 1,
        LcdSetCursor (- 4) 2, LcdPrintSensorData 2, LcdSetCursor (- 4) 3, LcdPrintSensorData 3]
   \<and> lcd (scrollDown \<lparr> displayOffset = 8, maxDisplayOffset = 4, lcd = [] \<rparr>) = [LcdClear]
   \<and> displayOffset (scrollDown \<lparr> displayOffset = 8, maxDisplayOffset = 4, lcd = [] \<rparr>) = 8"
  by (simp add: redraw_0 scrollUp_def scrollDown_def send_def Let_def initDisplay_def
        display0_def)

end
